theory Spec2Isabelle
  imports Main "HOL-Library.Sublist"
begin

section \<open>Data model of \<^verbatim>\<open>Products/Relations/components/types.py\<close>\<close>

text \<open>
  The module reads exactly one attribute of the objects it is handed: their
  \<^verbatim>\<open>portal_type\<close>. Content objects, catalog brains and brain aggregates are therefore one
  record; \<open>UID\<close> tells two objects of the same portal type apart.
\<close>

record brain =
  UID :: string
  portal_type :: string

text \<open>A reference exposes \<^verbatim>\<open>getSourceBrain()\<close> and \<^verbatim>\<open>getTargetBrain()\<close>.\<close>

record reference =
  getSourceBrain :: brain
  getTargetBrain :: brain

text \<open>
  \<^verbatim>\<open>exception.ValidationException(message, reference, chain)\<close>: the only exception the module
  constructs. The chain is opaque to the module, hence a type parameter.
\<close>

datatype 'c validation_exception = ValidationException string reference 'c

text \<open>
  The collaborators that live outside the module and are reached through \<^verbatim>\<open>self\<close>:
  \<^verbatim>\<open>utils.getPortalTypesByInterfaces(self, allowed)\<close>, the UID catalog called with keyword
  search terms, and \<^verbatim>\<open>brain.makeBrainAggregate(self, o)\<close>. They are parameters of the model;
  nothing is assumed about what they return.
\<close>

record 'o site =
  utils_getPortalTypesByInterfaces :: "string list \<Rightarrow> string list"
  uid_catalog :: "(string \<rightharpoonup> string list) \<Rightarrow> 'o list"
  makeBrainAggregate :: "'o \<Rightarrow> brain"

text \<open>
  The two rule classes. \<open>ruleset_Title\<close> is the value of \<^verbatim>\<open>self.getRuleset().Title()\<close>
  (\<^verbatim>\<open>ruleset.RuleBase\<close> is outside the module). The remaining fields are the
  \<^verbatim>\<open>LinesField\<close>s of each class's schema.
\<close>

record rule_base =
  ruleset_Title :: string

record type_constraint = rule_base +
  allowedSourceTypes :: "string list"
  allowedTargetTypes :: "string list"

record interface_constraint = rule_base +
  allowedSourceInterfaces :: "string list"
  allowedTargetInterfaces :: "string list"

datatype rule =
  PortalTypeConstraint type_constraint
| InterfaceConstraint interface_constraint

section \<open>Operations\<close>

fun getRuleset_Title :: "rule \<Rightarrow> string" where
  "getRuleset_Title (PortalTypeConstraint c) = ruleset_Title c"
| "getRuleset_Title (InterfaceConstraint c) = ruleset_Title c"

text \<open>
  \<^verbatim>\<open>InterfaceConstraint._getPortalTypesByInterfaces\<close>: the external lookup, with
  \<^verbatim>\<open>'spam'\<close> appended.
\<close>

definition InterfaceConstraint_getPortalTypesByInterfaces ::
  "'o site \<Rightarrow> string list \<Rightarrow> string list" where
  "InterfaceConstraint_getPortalTypesByInterfaces env allowed =
     (let portal_types = utils_getPortalTypesByInterfaces env allowed
      in portal_types @ [''spam''])"

text \<open>
  \<^verbatim>\<open>getAllowedSourceTypes\<close> and \<^verbatim>\<open>getAllowedTargetTypes\<close>: the field accessor on
  \<^verbatim>\<open>PortalTypeConstraint\<close>, overridden on \<^verbatim>\<open>InterfaceConstraint\<close>. A Python sequence is
  true exactly when it is not empty.
\<close>

fun getAllowedSourceTypes :: "'o site \<Rightarrow> rule \<Rightarrow> string list" where
  "getAllowedSourceTypes env (PortalTypeConstraint c) = allowedSourceTypes c"
| "getAllowedSourceTypes env (InterfaceConstraint c) =
     (let asi = allowedSourceInterfaces c
      in if asi \<noteq> [] then InterfaceConstraint_getPortalTypesByInterfaces env asi else [])"

fun getAllowedTargetTypes :: "'o site \<Rightarrow> rule \<Rightarrow> string list" where
  "getAllowedTargetTypes env (PortalTypeConstraint c) = allowedTargetTypes c"
| "getAllowedTargetTypes env (InterfaceConstraint c) =
     (let ati = allowedTargetInterfaces c
      in if ati \<noteq> [] then InterfaceConstraint_getPortalTypesByInterfaces env ati else [])"

text \<open>\<^verbatim>\<open>getSearchTerms\<close>: the keyword dictionary handed to the catalog.\<close>

definition getSearchTerms :: "'o site \<Rightarrow> rule \<Rightarrow> (string \<rightharpoonup> string list)" where
  "getSearchTerms env self =
     (let d = Map.empty;
          att = getAllowedTargetTypes env self
      in if att \<noteq> [] then d(''portal_type'' \<mapsto> att) else d)"

text \<open>
  \<^verbatim>\<open>makeVocabulary(source, targets=None)\<close>. The optional argument is an \<open>option\<close>:
  \<open>Some []\<close> is an empty candidate list, which is not \<^verbatim>\<open>None\<close>.
\<close>

definition makeVocabulary ::
  "'o site \<Rightarrow> rule \<Rightarrow> brain \<Rightarrow> brain list option \<Rightarrow> brain list" where
  "makeVocabulary env self source targets =
     (let ast = getAllowedSourceTypes env self;
          att = getAllowedTargetTypes env self
      in if ast \<noteq> [] \<and> portal_type source \<notin> set ast then []
         else (case targets of
                 Some ts \<Rightarrow> filter (\<lambda>t. att = [] \<or> portal_type t \<in> set att) ts
               | None \<Rightarrow>
                   (let objs = uid_catalog env (getSearchTerms env self)
                    in map (makeBrainAggregate env) objs)))"

text \<open>
  \<^verbatim>\<open>validateConnected(reference, chain)\<close>: \<open>Inl\<close> is the raised exception, \<open>Inr ()\<close> the
  return of \<^verbatim>\<open>None\<close>. The messages are the two \<^verbatim>\<open>%\<close>-formatted strings of the source;
  \<open>CHR 0x27\<close> is the apostrophe around the title.
\<close>

definition source_message :: "string \<Rightarrow> string \<Rightarrow> string" where
  "source_message st title =
     ''Source type '' @ st @ '' not allowed for '' @ [CHR 0x27] @ title @ [CHR 0x27] @ ''.''"

definition target_message :: "string \<Rightarrow> string \<Rightarrow> string" where
  "target_message tt title =
     ''Target type '' @ tt @ '' not allowed for '' @ [CHR 0x27] @ title @ [CHR 0x27] @ ''.''"

definition validateConnected ::
  "'o site \<Rightarrow> rule \<Rightarrow> reference \<Rightarrow> 'c \<Rightarrow> 'c validation_exception + unit" where
  "validateConnected env self reference chain =
     (let ast = getAllowedSourceTypes env self;
          att = getAllowedTargetTypes env self;
          st = portal_type (getSourceBrain reference);
          tt = portal_type (getTargetBrain reference)
      in if ast \<noteq> [] \<and> st \<notin> set ast
         then Inl (ValidationException (source_message st (getRuleset_Title self)) reference chain)
         else if att \<noteq> [] \<and> tt \<notin> set att
         then Inl (ValidationException (target_message tt (getRuleset_Title self)) reference chain)
         else Inr ())"

text \<open>\<^verbatim>\<open>validateDisconnected(reference, chain)\<close>: the body is a docstring only.\<close>

definition validateDisconnected ::
  "'o site \<Rightarrow> rule \<Rightarrow> reference \<Rightarrow> 'c \<Rightarrow> 'c validation_exception + unit" where
  "validateDisconnected env self reference chain = Inr ()"

section \<open>Fixtures for the concrete instances\<close>

text \<open>
  A site whose lookup knows one interface, \<^verbatim>\<open>IDoc\<close>, provided by \<^verbatim>\<open>Document\<close> alone, and
  whose catalog answers a query by echoing the requested portal types as objects.
\<close>

abbreviation demo_site :: "brain site" where
  "demo_site \<equiv>
     \<lparr> utils_getPortalTypesByInterfaces =
         (\<lambda>allowed. if ''IDoc'' \<in> set allowed then [''Document''] else []),
       uid_catalog =
         (\<lambda>d. case d ''portal_type'' of
                 None \<Rightarrow> []
               | Some kinds \<Rightarrow> map (\<lambda>k. \<lparr> UID = ''hit'', portal_type = k \<rparr>) kinds),
       makeBrainAggregate = (\<lambda>hit. hit) \<rparr>"

abbreviation item0 :: brain where
  "item0 \<equiv> \<lparr> UID = ''item0'', portal_type = ''Document'' \<rparr>"

abbreviation item1 :: brain where
  "item1 \<equiv> \<lparr> UID = ''item1'', portal_type = ''Image'' \<rparr>"

abbreviation item2 :: brain where
  "item2 \<equiv> \<lparr> UID = ''item2'', portal_type = ''Document'' \<rparr>"

text \<open>
  A site with the same lookup whose catalog indexes the three items and answers a query by
  the indexed objects of a requested portal type (all of them when no portal type is asked
  for).
\<close>

abbreviation indexed_site :: "brain site" where
  "indexed_site \<equiv>
     \<lparr> utils_getPortalTypesByInterfaces =
         (\<lambda>allowed. if ''IDoc'' \<in> set allowed then [''Document''] else []),
       uid_catalog =
         (\<lambda>d. case d ''portal_type'' of
                 None \<Rightarrow> [item0, item1, item2]
               | Some kinds \<Rightarrow>
                   filter (\<lambda>b. portal_type b \<in> set kinds) [item0, item1, item2]),
       makeBrainAggregate = (\<lambda>hit. hit) \<rparr>"

section \<open>Shared facts\<close>

lemma validateConnected_resolved_empty:
  "getAllowedSourceTypes env self = [] \<Longrightarrow> getAllowedTargetTypes env self = [] \<Longrightarrow>
   validateConnected env self reference chain = Inr ()"
  by (simp add: validateConnected_def)

lemma InterfaceConstraint_source_empty_iff:
  "getAllowedSourceTypes env (InterfaceConstraint c) = [] \<longleftrightarrow> allowedSourceInterfaces c = []"
  by (simp add: InterfaceConstraint_getPortalTypesByInterfaces_def Let_def)

lemma InterfaceConstraint_target_empty_iff:
  "getAllowedTargetTypes env (InterfaceConstraint c) = [] \<longleftrightarrow> allowedTargetInterfaces c = []"
  by (simp add: InterfaceConstraint_getPortalTypesByInterfaces_def Let_def)

section \<open>Validation\<close>

text \<open>
  C8. \<^verbatim>\<open>validateDisconnected\<close> returns without raising, for every site, every rule of
  either class, every reference and every chain.
\<close>

theorem validateDisconnected_succeeds:
  "validateDisconnected env self reference chain = Inr ()"
  by (simp add: validateDisconnected_def)

theorem validateDisconnected_succeeds_witness:
  "validateDisconnected demo_site
     (InterfaceConstraint \<lparr> ruleset_Title = ''Is Parent Of'',
        allowedSourceInterfaces = [''IMissing''], allowedTargetInterfaces = [''IDoc''] \<rparr>)
     \<lparr> getSourceBrain = item1, getTargetBrain = item1 \<rparr> (0::nat) = Inr ()"
  by (rule validateDisconnected_succeeds)

text \<open>
  C4. When both configured allow-lists of a rule are empty (the two kind lists of a
  \<^verbatim>\<open>PortalTypeConstraint\<close>, the two interface lists of an \<^verbatim>\<open>InterfaceConstraint\<close>),
  \<^verbatim>\<open>validateConnected\<close> raises nothing, for every reference and every chain.
\<close>

theorem validateConnected_unrestricted:
  assumes "case self of
             PortalTypeConstraint c \<Rightarrow> allowedSourceTypes c = [] \<and> allowedTargetTypes c = []
           | InterfaceConstraint c \<Rightarrow>
               allowedSourceInterfaces c = [] \<and> allowedTargetInterfaces c = []"
  shows "validateConnected env self reference chain = Inr ()"
proof (cases self)
  case (PortalTypeConstraint c)
  with assms show ?thesis
    by (simp add: validateConnected_resolved_empty)
next
  case (InterfaceConstraint c)
  with assms show ?thesis
    by (simp add: validateConnected_resolved_empty)
qed

theorem validateConnected_unrestricted_witness:
  "validateConnected demo_site
     (PortalTypeConstraint \<lparr> ruleset_Title = ''Is Parent Of'',
        allowedSourceTypes = [], allowedTargetTypes = [] \<rparr>)
     \<lparr> getSourceBrain = item0, getTargetBrain = item1 \<rparr> (0::nat) = Inr ()
   \<and> validateConnected demo_site
     (InterfaceConstraint \<lparr> ruleset_Title = ''Is Parent Of'',
        allowedSourceInterfaces = [], allowedTargetInterfaces = [] \<rparr>)
     \<lparr> getSourceBrain = item1, getTargetBrain = item2 \<rparr> (0::nat) = Inr ()"
  using
    validateConnected_unrestricted [where env = demo_site and chain = "0::nat"
      and self = "PortalTypeConstraint \<lparr> ruleset_Title = ''Is Parent Of'',
        allowedSourceTypes = [], allowedTargetTypes = [] \<rparr>"
      and reference = "\<lparr> getSourceBrain = item0, getTargetBrain = item1 \<rparr>"]
    validateConnected_unrestricted [where env = demo_site and chain = "0::nat"
      and self = "InterfaceConstraint \<lparr> ruleset_Title = ''Is Parent Of'',
        allowedSourceInterfaces = [], allowedTargetInterfaces = [] \<rparr>"
      and reference = "\<lparr> getSourceBrain = item1, getTargetBrain = item2 \<rparr>"]
  by simp

text \<open>
  C5. A reference whose source portal type is in a non-empty allowed-source list and whose
  target portal type is in a non-empty allowed-target list passes \<^verbatim>\<open>validateConnected\<close>.
\<close>

theorem validateConnected_both_allowed:
  assumes "getAllowedSourceTypes env self \<noteq> []"
    and "portal_type (getSourceBrain reference) \<in> set (getAllowedSourceTypes env self)"
    and "getAllowedTargetTypes env self \<noteq> []"
    and "portal_type (getTargetBrain reference) \<in> set (getAllowedTargetTypes env self)"
  shows "validateConnected env self reference chain = Inr ()"
  using assms by (simp add: validateConnected_def)

theorem validateConnected_both_allowed_witness:
  "validateConnected demo_site
     (PortalTypeConstraint \<lparr> ruleset_Title = ''Is Parent Of'',
        allowedSourceTypes = [''Image'', ''Document''], allowedTargetTypes = [''Image''] \<rparr>)
     \<lparr> getSourceBrain = item0, getTargetBrain = item1 \<rparr> (0::nat) = Inr ()"
proof -
  let ?r = "PortalTypeConstraint \<lparr> ruleset_Title = ''Is Parent Of'',
        allowedSourceTypes = [''Image'', ''Document''], allowedTargetTypes = [''Image''] \<rparr>"
  let ?ref = "\<lparr> getSourceBrain = item0, getTargetBrain = item1 \<rparr>"
  have s1: "getAllowedSourceTypes demo_site ?r \<noteq> []" by simp
  have s2: "portal_type (getSourceBrain ?ref) \<in> set (getAllowedSourceTypes demo_site ?r)"
    by simp
  have t1: "getAllowedTargetTypes demo_site ?r \<noteq> []" by simp
  have t2: "portal_type (getTargetBrain ?ref) \<in> set (getAllowedTargetTypes demo_site ?r)"
    by simp
  show ?thesis by (rule validateConnected_both_allowed [OF s1 s2 t1 t2])
qed

text \<open>
  C2. When the allowed-source list is non-empty and the reference's source portal type is
  not in it, \<^verbatim>\<open>validateConnected\<close> raises the source exception, whatever the target side
  looks like: the source test comes first and its \<^verbatim>\<open>raise\<close> ends the call. The exception
  carries the message \<^verbatim>\<open>Source type <st> not allowed for '<title>'.\<close>, where the title is
  \<^verbatim>\<open>self.getRuleset().Title()\<close>, and the reference and the chain as they were passed.
\<close>

theorem validateConnected_source_first:
  assumes "getAllowedSourceTypes env self \<noteq> []"
    and "portal_type (getSourceBrain reference) \<notin> set (getAllowedSourceTypes env self)"
  shows "validateConnected env self reference chain =
           Inl (ValidationException
                  (''Source type '' @ portal_type (getSourceBrain reference) @
                   '' not allowed for '' @ [CHR 0x27] @ getRuleset_Title self @
                   [CHR 0x27] @ ''.'')
                  reference chain)"
  using assms by (simp add: validateConnected_def source_message_def)

theorem validateConnected_source_first_witness:
  "validateConnected demo_site
     (PortalTypeConstraint \<lparr> ruleset_Title = ''Is Parent Of'',
        allowedSourceTypes = [''Document''], allowedTargetTypes = [''Document''] \<rparr>)
     \<lparr> getSourceBrain = item1, getTargetBrain = item1 \<rparr> (7::nat) =
   Inl (ValidationException ''Source type Image not allowed for 'Is Parent Of'.''
          \<lparr> getSourceBrain = item1, getTargetBrain = item1 \<rparr> 7)"
proof -
  let ?r = "PortalTypeConstraint \<lparr> ruleset_Title = ''Is Parent Of'',
        allowedSourceTypes = [''Document''], allowedTargetTypes = [''Document''] \<rparr>"
  let ?ref = "\<lparr> getSourceBrain = item1, getTargetBrain = item1 \<rparr>"
  have s1: "getAllowedSourceTypes demo_site ?r \<noteq> []" by simp
  have s2: "portal_type (getSourceBrain ?ref) \<notin> set (getAllowedSourceTypes demo_site ?r)"
    by simp
  show ?thesis
    using validateConnected_source_first [OF s1 s2, where chain = "7::nat"] by simp
qed

text \<open>
  C3 (as the source has it). The module raises one kind of failure only,
  \<^verbatim>\<open>ValidationException(message, reference, chain)\<close>, and the message tells the side:
  \<^item> when the allowed-source list is non-empty and lacks the source's portal type, the
    \<^verbatim>\<open>Source type ...\<close> exception is raised;
  \<^item> when the source side passes, and the allowed-target list is non-empty and lacks the
    target's portal type, the \<^verbatim>\<open>Target type ...\<close> exception is raised;
  \<^item> when both sides pass, the call returns;
  \<^item> so every call returns or raises one of these two, and a source message never equals
    a target message.
  The rule class does not show at all: \<^verbatim>\<open>InterfaceConstraint\<close> inherits
  \<^verbatim>\<open>validateConnected\<close>, so it raises exactly what a \<^verbatim>\<open>PortalTypeConstraint\<close> holding the
  resolved kind lists raises. Nothing else is raised: \<^verbatim>\<open>validateDisconnected\<close> returns.
\<close>

theorem validation_failures_one_kind:
  "(getAllowedSourceTypes env self \<noteq> []
      \<and> portal_type (getSourceBrain reference) \<notin> set (getAllowedSourceTypes env self) \<longrightarrow>
    validateConnected env self reference chain =
        Inl (ValidationException
               (''Source type '' @ portal_type (getSourceBrain reference) @
                '' not allowed for '' @ [CHR 0x27] @ getRuleset_Title self @
                [CHR 0x27] @ ''.'')
               reference chain))
   \<and> ((getAllowedSourceTypes env self = []
        \<or> portal_type (getSourceBrain reference) \<in> set (getAllowedSourceTypes env self))
      \<and> getAllowedTargetTypes env self \<noteq> []
      \<and> portal_type (getTargetBrain reference) \<notin> set (getAllowedTargetTypes env self) \<longrightarrow>
    validateConnected env self reference chain =
        Inl (ValidationException
               (''Target type '' @ portal_type (getTargetBrain reference) @
                '' not allowed for '' @ [CHR 0x27] @ getRuleset_Title self @
                [CHR 0x27] @ ''.'')
               reference chain))
   \<and> ((getAllowedSourceTypes env self = []
        \<or> portal_type (getSourceBrain reference) \<in> set (getAllowedSourceTypes env self))
      \<and> (getAllowedTargetTypes env self = []
        \<or> portal_type (getTargetBrain reference) \<in> set (getAllowedTargetTypes env self)) \<longrightarrow>
    validateConnected env self reference chain = Inr ())
   \<and> (validateConnected env self reference chain = Inr ()
    \<or> validateConnected env self reference chain =
        Inl (ValidationException
               (''Source type '' @ portal_type (getSourceBrain reference) @
                '' not allowed for '' @ [CHR 0x27] @ getRuleset_Title self @
                [CHR 0x27] @ ''.'')
               reference chain)
    \<or> validateConnected env self reference chain =
        Inl (ValidationException
               (''Target type '' @ portal_type (getTargetBrain reference) @
                '' not allowed for '' @ [CHR 0x27] @ getRuleset_Title self @
                [CHR 0x27] @ ''.'')
               reference chain))
   \<and> validateConnected env (InterfaceConstraint c) reference chain =
       validateConnected env
         (PortalTypeConstraint \<lparr> ruleset_Title = ruleset_Title c,
            allowedSourceTypes = getAllowedSourceTypes env (InterfaceConstraint c),
            allowedTargetTypes = getAllowedTargetTypes env (InterfaceConstraint c) \<rparr>)
         reference chain
   \<and> ''Source type '' @ st @ '' not allowed for '' @ [CHR 0x27] @ title @ [CHR 0x27] @ ''.''
       \<noteq> ''Target type '' @ tt @ '' not allowed for '' @ [CHR 0x27] @ title' @ [CHR 0x27] @ ''.''
   \<and> validateDisconnected env self reference chain = Inr ()"
  (is "?source_side \<and> ?target_side \<and> ?passes \<and> ?outcomes \<and> ?inherited \<and> ?differ \<and> ?disc")
proof -
  have 1: ?source_side
    by (simp add: validateConnected_def source_message_def Let_def)
  have 2: ?target_side
    by (auto simp add: validateConnected_def target_message_def Let_def)
  have 3: ?passes
    by (auto simp add: validateConnected_def Let_def)
  have 4: ?outcomes
    by (simp add: validateConnected_def source_message_def target_message_def Let_def)
  have 5: ?inherited
    by (simp add: validateConnected_def Let_def)
  have 6: ?differ
    by simp
  have 7: ?disc
    by (simp add: validateDisconnected_def)
  from 1 2 3 4 5 6 7 show ?thesis
    by (intro conjI)
qed

text \<open>
  Instances on interface rules: a source-side failure, a target-side failure behind a
  passing source side, a reference that passes, and the agreement with the type rule that
  holds the resolved lists.
\<close>

theorem validation_failures_one_kind_witness:
  "validateConnected demo_site
     (InterfaceConstraint \<lparr> ruleset_Title = ''Is Parent Of'',
        allowedSourceInterfaces = [''IMissing''], allowedTargetInterfaces = [''IMissing''] \<rparr>)
     \<lparr> getSourceBrain = item0, getTargetBrain = item1 \<rparr> (7::nat) =
     Inl (ValidationException ''Source type Document not allowed for 'Is Parent Of'.''
            \<lparr> getSourceBrain = item0, getTargetBrain = item1 \<rparr> 7)
   \<and> validateConnected demo_site
     (InterfaceConstraint \<lparr> ruleset_Title = ''Is Parent Of'',
        allowedSourceInterfaces = [''IDoc''], allowedTargetInterfaces = [''IDoc''] \<rparr>)
     \<lparr> getSourceBrain = item0, getTargetBrain = item1 \<rparr> (7::nat) =
     Inl (ValidationException ''Target type Image not allowed for 'Is Parent Of'.''
            \<lparr> getSourceBrain = item0, getTargetBrain = item1 \<rparr> 7)
   \<and> validateConnected demo_site
     (InterfaceConstraint \<lparr> ruleset_Title = ''Is Parent Of'',
        allowedSourceInterfaces = [''IDoc''], allowedTargetInterfaces = [''IDoc''] \<rparr>)
     \<lparr> getSourceBrain = item0, getTargetBrain = item2 \<rparr> (7::nat) = Inr ()
   \<and> validateConnected demo_site
     (InterfaceConstraint \<lparr> ruleset_Title = ''Is Parent Of'',
        allowedSourceInterfaces = [], allowedTargetInterfaces = [''IDoc''] \<rparr>)
     \<lparr> getSourceBrain = item0, getTargetBrain = item1 \<rparr> (7::nat) =
     validateConnected demo_site
       (PortalTypeConstraint \<lparr> ruleset_Title = ''Is Parent Of'',
          allowedSourceTypes = [], allowedTargetTypes = [''Document'', ''spam''] \<rparr>)
       \<lparr> getSourceBrain = item0, getTargetBrain = item1 \<rparr> (7::nat)"
proof -
  have a: "validateConnected demo_site
     (InterfaceConstraint \<lparr> ruleset_Title = ''Is Parent Of'',
        allowedSourceInterfaces = [''IMissing''], allowedTargetInterfaces = [''IMissing''] \<rparr>)
     \<lparr> getSourceBrain = item0, getTargetBrain = item1 \<rparr> (7::nat) =
     Inl (ValidationException ''Source type Document not allowed for 'Is Parent Of'.''
            \<lparr> getSourceBrain = item0, getTargetBrain = item1 \<rparr> 7)"
    using validation_failures_one_kind [where env = demo_site and chain = "7::nat"
      and self = "InterfaceConstraint \<lparr> ruleset_Title = ''Is Parent Of'',
        allowedSourceInterfaces = [''IMissing''], allowedTargetInterfaces = [''IMissing''] \<rparr>"
      and reference = "\<lparr> getSourceBrain = item0, getTargetBrain = item1 \<rparr>",
      THEN conjunct1]
    by (simp add: InterfaceConstraint_getPortalTypesByInterfaces_def)
  have b: "validateConnected demo_site
     (InterfaceConstraint \<lparr> ruleset_Title = ''Is Parent Of'',
        allowedSourceInterfaces = [''IDoc''], allowedTargetInterfaces = [''IDoc''] \<rparr>)
     \<lparr> getSourceBrain = item0, getTargetBrain = item1 \<rparr> (7::nat) =
     Inl (ValidationException ''Target type Image not allowed for 'Is Parent Of'.''
            \<lparr> getSourceBrain = item0, getTargetBrain = item1 \<rparr> 7)"
    using validation_failures_one_kind [where env = demo_site and chain = "7::nat"
      and self = "InterfaceConstraint \<lparr> ruleset_Title = ''Is Parent Of'',
        allowedSourceInterfaces = [''IDoc''], allowedTargetInterfaces = [''IDoc''] \<rparr>"
      and reference = "\<lparr> getSourceBrain = item0, getTargetBrain = item1 \<rparr>",
      THEN conjunct2, THEN conjunct1]
    by (simp add: InterfaceConstraint_getPortalTypesByInterfaces_def)
  have c: "validateConnected demo_site
     (InterfaceConstraint \<lparr> ruleset_Title = ''Is Parent Of'',
        allowedSourceInterfaces = [''IDoc''], allowedTargetInterfaces = [''IDoc''] \<rparr>)
     \<lparr> getSourceBrain = item0, getTargetBrain = item2 \<rparr> (7::nat) = Inr ()"
    using validation_failures_one_kind [where env = demo_site and chain = "7::nat"
      and self = "InterfaceConstraint \<lparr> ruleset_Title = ''Is Parent Of'',
        allowedSourceInterfaces = [''IDoc''], allowedTargetInterfaces = [''IDoc''] \<rparr>"
      and reference = "\<lparr> getSourceBrain = item0, getTargetBrain = item2 \<rparr>",
      THEN conjunct2, THEN conjunct2, THEN conjunct1]
    by (simp add: InterfaceConstraint_getPortalTypesByInterfaces_def)
  have d: "validateConnected demo_site
     (InterfaceConstraint \<lparr> ruleset_Title = ''Is Parent Of'',
        allowedSourceInterfaces = [], allowedTargetInterfaces = [''IDoc''] \<rparr>)
     \<lparr> getSourceBrain = item0, getTargetBrain = item1 \<rparr> (7::nat) =
     validateConnected demo_site
       (PortalTypeConstraint \<lparr> ruleset_Title = ''Is Parent Of'',
          allowedSourceTypes = [], allowedTargetTypes = [''Document'', ''spam''] \<rparr>)
       \<lparr> getSourceBrain = item0, getTargetBrain = item1 \<rparr> (7::nat)"
    using validation_failures_one_kind [where env = demo_site and chain = "7::nat"
      and c = "\<lparr> ruleset_Title = ''Is Parent Of'',
        allowedSourceInterfaces = [], allowedTargetInterfaces = [''IDoc''] \<rparr>"
      and reference = "\<lparr> getSourceBrain = item0, getTargetBrain = item1 \<rparr>",
      THEN conjunct2, THEN conjunct2, THEN conjunct2, THEN conjunct2, THEN conjunct1]
    by (simp add: InterfaceConstraint_getPortalTypesByInterfaces_def)
  from a b c d show ?thesis
    by blast
qed

text \<open>
  The claim of distinct failure kinds per rule type fails: an interface rule whose source
  interfaces resolve to no portal type, and a type rule configured with \<^verbatim>\<open>['spam']\<close>, raise
  the same exception, equal in class, message, reference and chain.
\<close>

theorem failure_kinds_per_rule_type_counterexample:
  "validateConnected demo_site
     (InterfaceConstraint \<lparr> ruleset_Title = ''Is Parent Of'',
        allowedSourceInterfaces = [''IMissing''], allowedTargetInterfaces = [] \<rparr>)
     \<lparr> getSourceBrain = item0, getTargetBrain = item1 \<rparr> (7::nat) =
   Inl (ValidationException ''Source type Document not allowed for 'Is Parent Of'.''
          \<lparr> getSourceBrain = item0, getTargetBrain = item1 \<rparr> 7)
   \<and> validateConnected demo_site
     (PortalTypeConstraint \<lparr> ruleset_Title = ''Is Parent Of'',
        allowedSourceTypes = [''spam''], allowedTargetTypes = [] \<rparr>)
     \<lparr> getSourceBrain = item0, getTargetBrain = item1 \<rparr> (7::nat) =
   Inl (ValidationException ''Source type Document not allowed for 'Is Parent Of'.''
          \<lparr> getSourceBrain = item0, getTargetBrain = item1 \<rparr> 7)"
  by (simp add: validateConnected_def source_message_def
      InterfaceConstraint_getPortalTypesByInterfaces_def)

section \<open>Vocabulary\<close>

text \<open>
  C7. When the allowed-source list is non-empty and the source's portal type is not in it,
  \<^verbatim>\<open>makeVocabulary\<close> returns the empty list, whatever \<^verbatim>\<open>targets\<close> is: a list of candidates
  or \<^verbatim>\<open>None\<close>.
\<close>

theorem makeVocabulary_source_disallowed:
  assumes "getAllowedSourceTypes env self \<noteq> []"
    and "portal_type source \<notin> set (getAllowedSourceTypes env self)"
  shows "makeVocabulary env self source targets = []"
  using assms by (simp add: makeVocabulary_def)

theorem makeVocabulary_source_disallowed_witness:
  "makeVocabulary demo_site
     (PortalTypeConstraint \<lparr> ruleset_Title = ''Is Parent Of'',
        allowedSourceTypes = [''Document''], allowedTargetTypes = [] \<rparr>)
     item1 (Some [item0, item1, item2]) = []
   \<and> makeVocabulary demo_site
     (PortalTypeConstraint \<lparr> ruleset_Title = ''Is Parent Of'',
        allowedSourceTypes = [''Document''], allowedTargetTypes = [] \<rparr>)
     item1 None = []"
proof -
  let ?r = "PortalTypeConstraint \<lparr> ruleset_Title = ''Is Parent Of'',
        allowedSourceTypes = [''Document''], allowedTargetTypes = [] \<rparr>"
  have s1: "getAllowedSourceTypes demo_site ?r \<noteq> []" by simp
  have s2: "portal_type item1 \<notin> set (getAllowedSourceTypes demo_site ?r)" by simp
  show ?thesis
    using makeVocabulary_source_disallowed [OF s1 s2, where targets = "Some [item0, item1, item2]"]
      makeVocabulary_source_disallowed [OF s1 s2, where targets = None]
    by simp
qed

text \<open>
  C6. For a source that passes the source test (the allowed-source list is empty or holds
  the source's portal type), \<^verbatim>\<open>makeVocabulary(source, targets)\<close> is \<^verbatim>\<open>targets\<close> itself when
  the allowed-target list is empty, and otherwise the candidates whose portal type is in the
  allowed-target list, in their original order and multiplicity; either way a subsequence
  of \<^verbatim>\<open>targets\<close>. With no allowed source types and allowed target types
  \<^verbatim>\<open>['Document']\<close>, the candidates Document, Image, Document give the first and the third.
\<close>

theorem makeVocabulary_filter:
  assumes "getAllowedSourceTypes env self = []
           \<or> portal_type source \<in> set (getAllowedSourceTypes env self)"
  shows "makeVocabulary env self source (Some targets) =
           (if getAllowedTargetTypes env self = [] then targets
            else filter (\<lambda>t. portal_type t \<in> set (getAllowedTargetTypes env self)) targets)
         \<and> subseq (makeVocabulary env self source (Some targets)) targets
         \<and> makeVocabulary env
             (PortalTypeConstraint \<lparr> ruleset_Title = title,
                allowedSourceTypes = [], allowedTargetTypes = [''Document''] \<rparr>)
             any_source (Some [item0, item1, item2]) = [item0, item2]"
proof (intro conjI)
  from assms show "makeVocabulary env self source (Some targets) =
           (if getAllowedTargetTypes env self = [] then targets
            else filter (\<lambda>t. portal_type t \<in> set (getAllowedTargetTypes env self)) targets)"
    by (auto simp add: makeVocabulary_def Let_def)
next
  show "subseq (makeVocabulary env self source (Some targets)) targets"
    by (simp add: makeVocabulary_def Let_def)
next
  show "makeVocabulary env
             (PortalTypeConstraint \<lparr> ruleset_Title = title,
                allowedSourceTypes = [], allowedTargetTypes = [''Document''] \<rparr>)
             any_source (Some [item0, item1, item2]) = [item0, item2]"
    by (simp add: makeVocabulary_def)
qed

theorem makeVocabulary_filter_witness:
  "makeVocabulary demo_site
     (InterfaceConstraint \<lparr> ruleset_Title = ''Is Parent Of'',
        allowedSourceInterfaces = [''IDoc''], allowedTargetInterfaces = [''IDoc''] \<rparr>)
     item0 (Some [item1, item2, item1, item0]) = [item2, item0]
   \<and> makeVocabulary demo_site
     (PortalTypeConstraint \<lparr> ruleset_Title = ''Is Parent Of'',
        allowedSourceTypes = [], allowedTargetTypes = [] \<rparr>)
     item1 (Some [item1, item2, item1, item0]) = [item1, item2, item1, item0]"
proof -
  let ?i = "InterfaceConstraint \<lparr> ruleset_Title = ''Is Parent Of'',
        allowedSourceInterfaces = [''IDoc''], allowedTargetInterfaces = [''IDoc''] \<rparr>"
  let ?p = "PortalTypeConstraint \<lparr> ruleset_Title = ''Is Parent Of'',
        allowedSourceTypes = [], allowedTargetTypes = [] \<rparr>"
  have a: "getAllowedSourceTypes demo_site ?i = []
           \<or> portal_type item0 \<in> set (getAllowedSourceTypes demo_site ?i)"
    by (simp add: InterfaceConstraint_getPortalTypesByInterfaces_def)
  have b: "getAllowedSourceTypes demo_site ?p = []
           \<or> portal_type item1 \<in> set (getAllowedSourceTypes demo_site ?p)"
    by simp
  show ?thesis
    using makeVocabulary_filter [OF a, where targets = "[item1, item2, item1, item0]"]
      makeVocabulary_filter [OF b, where targets = "[item1, item2, item1, item0]"]
    by (simp add: InterfaceConstraint_getPortalTypesByInterfaces_def)
qed

text \<open>
  C10. Filtering is idempotent: feeding the vocabulary computed for a source back as the
  candidates, for the same source, returns it unchanged. This holds for every source, so in
  particular for every source that passes the source test.
\<close>

theorem makeVocabulary_idempotent:
  "makeVocabulary env self source (Some (makeVocabulary env self source (Some targets))) =
   makeVocabulary env self source (Some targets)"
  by (simp add: makeVocabulary_def Let_def)

theorem makeVocabulary_idempotent_witness:
  "makeVocabulary demo_site
     (PortalTypeConstraint \<lparr> ruleset_Title = ''Is Parent Of'',
        allowedSourceTypes = [''Image''], allowedTargetTypes = [''Document''] \<rparr>)
     item1
     (Some (makeVocabulary demo_site
        (PortalTypeConstraint \<lparr> ruleset_Title = ''Is Parent Of'',
           allowedSourceTypes = [''Image''], allowedTargetTypes = [''Document''] \<rparr>)
        item1 (Some [item0, item1, item2]))) =
   makeVocabulary demo_site
     (PortalTypeConstraint \<lparr> ruleset_Title = ''Is Parent Of'',
        allowedSourceTypes = [''Image''], allowedTargetTypes = [''Document''] \<rparr>)
     item1 (Some [item0, item1, item2])"
  by (rule makeVocabulary_idempotent)

section \<open>Interface rules\<close>

text \<open>
  C9. For an \<^verbatim>\<open>InterfaceConstraint\<close> whose allowed-target interface list is not empty, the
  dictionary built by the inherited \<^verbatim>\<open>getSearchTerms\<close> has the key \<^verbatim>\<open>portal_type\<close> (and no
  other), bound to the portal types the lookup resolves followed by \<^verbatim>\<open>'spam'\<close>. On the
  path without \<^verbatim>\<open>targets\<close>, for a source that passes the source test, the catalog is called
  with exactly this dictionary, so \<^verbatim>\<open>'spam'\<close> is among the portal types it is asked for.
\<close>

theorem InterfaceConstraint_search_terms:
  assumes "allowedTargetInterfaces c \<noteq> []"
  shows "getSearchTerms env (InterfaceConstraint c) ''portal_type'' =
           Some (utils_getPortalTypesByInterfaces env (allowedTargetInterfaces c) @ [''spam''])
         \<and> dom (getSearchTerms env (InterfaceConstraint c)) = {''portal_type''}
         \<and> (\<exists>kinds. getSearchTerms env (InterfaceConstraint c) ''portal_type'' = Some kinds
               \<and> ''spam'' \<in> set kinds
               \<and> set (utils_getPortalTypesByInterfaces env (allowedTargetInterfaces c))
                   \<subseteq> set kinds)
         \<and> (getAllowedSourceTypes env (InterfaceConstraint c) = []
              \<or> portal_type source \<in> set (getAllowedSourceTypes env (InterfaceConstraint c))
            \<longrightarrow> makeVocabulary env (InterfaceConstraint c) source None =
                  map (makeBrainAggregate env)
                    (uid_catalog env
                       [''portal_type'' \<mapsto>
                          utils_getPortalTypesByInterfaces env (allowedTargetInterfaces c)
                          @ [''spam'']]))"
proof -
  have att: "getAllowedTargetTypes env (InterfaceConstraint c) =
      utils_getPortalTypesByInterfaces env (allowedTargetInterfaces c) @ [''spam'']"
    using assms by (simp add: InterfaceConstraint_getPortalTypesByInterfaces_def)
  have terms: "getSearchTerms env (InterfaceConstraint c) =
      [''portal_type'' \<mapsto>
         utils_getPortalTypesByInterfaces env (allowedTargetInterfaces c) @ [''spam'']]"
    unfolding getSearchTerms_def att by (simp add: Let_def)
  have voc: "getAllowedSourceTypes env (InterfaceConstraint c) = []
              \<or> portal_type source \<in> set (getAllowedSourceTypes env (InterfaceConstraint c))
            \<longrightarrow> makeVocabulary env (InterfaceConstraint c) source None =
                  map (makeBrainAggregate env)
                    (uid_catalog env
                       [''portal_type'' \<mapsto>
                          utils_getPortalTypesByInterfaces env (allowedTargetInterfaces c)
                          @ [''spam'']])"
    unfolding makeVocabulary_def terms by (auto simp add: Let_def)
  have key: "getSearchTerms env (InterfaceConstraint c) ''portal_type'' =
           Some (utils_getPortalTypesByInterfaces env (allowedTargetInterfaces c) @ [''spam''])"
    by (simp add: terms)
  have only: "dom (getSearchTerms env (InterfaceConstraint c)) = {''portal_type''}"
    by (simp add: terms)
  have incl: "\<exists>kinds. getSearchTerms env (InterfaceConstraint c) ''portal_type'' = Some kinds
               \<and> ''spam'' \<in> set kinds
               \<and> set (utils_getPortalTypesByInterfaces env (allowedTargetInterfaces c))
                   \<subseteq> set kinds"
    unfolding key by auto
  from key only incl voc show ?thesis
    by (intro conjI)
qed

theorem InterfaceConstraint_search_terms_witness:
  "getSearchTerms demo_site
     (InterfaceConstraint \<lparr> ruleset_Title = ''Is Parent Of'',
        allowedSourceInterfaces = [], allowedTargetInterfaces = [''IDoc''] \<rparr>)
     ''portal_type'' = Some [''Document'', ''spam'']
   \<and> makeVocabulary demo_site
     (InterfaceConstraint \<lparr> ruleset_Title = ''Is Parent Of'',
        allowedSourceInterfaces = [], allowedTargetInterfaces = [''IDoc''] \<rparr>)
     item1 None =
     [\<lparr> UID = ''hit'', portal_type = ''Document'' \<rparr>, \<lparr> UID = ''hit'', portal_type = ''spam'' \<rparr>]"
proof -
  let ?c = "\<lparr> ruleset_Title = ''Is Parent Of'',
        allowedSourceInterfaces = [], allowedTargetInterfaces = [''IDoc''] \<rparr>"
  have a: "allowedTargetInterfaces ?c \<noteq> []" by simp
  show ?thesis
    using InterfaceConstraint_search_terms [OF a, where env = demo_site and source = item1]
    by simp
qed

text \<open>
  C1. For an \<^verbatim>\<open>InterfaceConstraint\<close>, on either side:
  \<^item> an empty interface list resolves to the empty list, and a non-empty one to what the
    lookup returns for it, followed by \<^verbatim>\<open>'spam'\<close>;
  \<^item> so a non-empty interface list for which the lookup returns nothing resolves to
    \<^verbatim>\<open>['spam']\<close>. On the source side, every source of a real portal type (one other than
    \<^verbatim>\<open>'spam'\<close>) then gets the empty vocabulary, with or without \<^verbatim>\<open>targets\<close>, and fails
    \<^verbatim>\<open>validateConnected\<close> with the source exception. On the target side, candidates of real
    portal types are all filtered out; without \<^verbatim>\<open>targets\<close> the catalog is asked for
    \<^verbatim>\<open>portal_type = ['spam']\<close>, so the vocabulary is empty whenever the catalog answers a
    portal-type query with objects of a requested type only and indexes objects of real
    portal types only; and a reference to a target of a real portal type fails validation,
    with the target exception once the source side passes;
  \<^item> whereas an empty interface list restricts nothing on its side: with no source
    interfaces every source gets the candidates the target side lets through and a
    reference passes whenever its target side does; with no target interfaces an admitted
    source keeps every candidate, the catalog is queried with no search term, and a
    reference passes whenever its source side does; with both lists empty every candidate
    is kept and every reference passes.
\<close>

theorem InterfaceConstraint_allowed_types:
  "(allowedSourceInterfaces c = [] \<longrightarrow> getAllowedSourceTypes env (InterfaceConstraint c) = [])
   \<and> (allowedTargetInterfaces c = [] \<longrightarrow> getAllowedTargetTypes env (InterfaceConstraint c) = [])
   \<and> (allowedSourceInterfaces c \<noteq> [] \<longrightarrow>
        getAllowedSourceTypes env (InterfaceConstraint c) =
          utils_getPortalTypesByInterfaces env (allowedSourceInterfaces c) @ [''spam''])
   \<and> (allowedTargetInterfaces c \<noteq> [] \<longrightarrow>
        getAllowedTargetTypes env (InterfaceConstraint c) =
          utils_getPortalTypesByInterfaces env (allowedTargetInterfaces c) @ [''spam''])
   \<and> (allowedSourceInterfaces c \<noteq> []
        \<and> utils_getPortalTypesByInterfaces env (allowedSourceInterfaces c) = [] \<longrightarrow>
        getAllowedSourceTypes env (InterfaceConstraint c) = [''spam'']
        \<and> (portal_type source \<noteq> ''spam'' \<longrightarrow>
             makeVocabulary env (InterfaceConstraint c) source targets = [])
        \<and> (portal_type (getSourceBrain reference) \<noteq> ''spam'' \<longrightarrow>
             validateConnected env (InterfaceConstraint c) reference chain =
               Inl (ValidationException
                      (''Source type '' @ portal_type (getSourceBrain reference) @
                       '' not allowed for '' @ [CHR 0x27] @ ruleset_Title c @
                       [CHR 0x27] @ ''.'')
                      reference chain)))
   \<and> (allowedTargetInterfaces c \<noteq> []
        \<and> utils_getPortalTypesByInterfaces env (allowedTargetInterfaces c) = [] \<longrightarrow>
        getAllowedTargetTypes env (InterfaceConstraint c) = [''spam'']
        \<and> ((\<forall>t \<in> set ts. portal_type t \<noteq> ''spam'') \<longrightarrow>
             makeVocabulary env (InterfaceConstraint c) source (Some ts) = [])
        \<and> ((getAllowedSourceTypes env (InterfaceConstraint c) = []
              \<or> portal_type source \<in> set (getAllowedSourceTypes env (InterfaceConstraint c))) \<longrightarrow>
             makeVocabulary env (InterfaceConstraint c) source None =
               map (makeBrainAggregate env) (uid_catalog env [''portal_type'' \<mapsto> [''spam'']]))
        \<and> ((\<forall>d kinds. d ''portal_type'' = Some kinds \<longrightarrow>
                (\<forall>hit \<in> set (uid_catalog env d).
                   portal_type (makeBrainAggregate env hit) \<in> set kinds))
             \<and> (\<forall>d. \<forall>hit \<in> set (uid_catalog env d).
                   portal_type (makeBrainAggregate env hit) \<noteq> ''spam'') \<longrightarrow>
             makeVocabulary env (InterfaceConstraint c) source None = [])
        \<and> (portal_type (getTargetBrain reference) \<noteq> ''spam'' \<longrightarrow>
             validateConnected env (InterfaceConstraint c) reference chain \<noteq> Inr ()
             \<and> ((getAllowedSourceTypes env (InterfaceConstraint c) = []
              \<or> portal_type (getSourceBrain reference)
                  \<in> set (getAllowedSourceTypes env (InterfaceConstraint c))) \<longrightarrow>
                  validateConnected env (InterfaceConstraint c) reference chain =
                    Inl (ValidationException
                      (''Target type '' @ portal_type (getTargetBrain reference) @
                       '' not allowed for '' @ [CHR 0x27] @ ruleset_Title c @
                       [CHR 0x27] @ ''.'')
                      reference chain))))
   \<and> (allowedSourceInterfaces c = [] \<longrightarrow>
        makeVocabulary env (InterfaceConstraint c) source (Some ts) =
          filter (\<lambda>t. getAllowedTargetTypes env (InterfaceConstraint c) = []
                      \<or> portal_type t \<in> set (getAllowedTargetTypes env (InterfaceConstraint c)))
            ts
        \<and> makeVocabulary env (InterfaceConstraint c) source None =
            map (makeBrainAggregate env)
              (uid_catalog env (getSearchTerms env (InterfaceConstraint c)))
        \<and> ((getAllowedTargetTypes env (InterfaceConstraint c) = []
              \<or> portal_type (getTargetBrain reference)
                  \<in> set (getAllowedTargetTypes env (InterfaceConstraint c))) \<longrightarrow>
             validateConnected env (InterfaceConstraint c) reference chain = Inr ()))
   \<and> (allowedTargetInterfaces c = [] \<longrightarrow>
        ((getAllowedSourceTypes env (InterfaceConstraint c) = []
              \<or> portal_type source \<in> set (getAllowedSourceTypes env (InterfaceConstraint c))) \<longrightarrow>
           makeVocabulary env (InterfaceConstraint c) source (Some ts) = ts
           \<and> makeVocabulary env (InterfaceConstraint c) source None =
               map (makeBrainAggregate env) (uid_catalog env Map.empty))
        \<and> ((getAllowedSourceTypes env (InterfaceConstraint c) = []
              \<or> portal_type (getSourceBrain reference)
                  \<in> set (getAllowedSourceTypes env (InterfaceConstraint c))) \<longrightarrow>
             validateConnected env (InterfaceConstraint c) reference chain = Inr ()))
   \<and> (allowedSourceInterfaces c = [] \<and> allowedTargetInterfaces c = [] \<longrightarrow>
        makeVocabulary env (InterfaceConstraint c) source (Some ts) = ts
        \<and> validateConnected env (InterfaceConstraint c) reference chain = Inr ())"
  (is "?E1 \<and> ?E2 \<and> ?N1 \<and> ?N2 \<and> ?S \<and> ?T \<and> ?US \<and> ?UT \<and> ?U")
proof -
  have e1: ?E1 by simp
  have e2: ?E2 by simp
  have n1: ?N1 by (simp add: InterfaceConstraint_getPortalTypesByInterfaces_def)
  have n2: ?N2 by (simp add: InterfaceConstraint_getPortalTypesByInterfaces_def)
  have s: ?S
  proof (intro impI, elim conjE)
    assume ne: "allowedSourceInterfaces c \<noteq> []"
      and none: "utils_getPortalTypesByInterfaces env (allowedSourceInterfaces c) = []"
    have ast: "getAllowedSourceTypes env (InterfaceConstraint c) = [''spam'']"
      using ne none by (simp add: InterfaceConstraint_getPortalTypesByInterfaces_def)
    show "getAllowedSourceTypes env (InterfaceConstraint c) = [''spam'']
        \<and> (portal_type source \<noteq> ''spam'' \<longrightarrow>
             makeVocabulary env (InterfaceConstraint c) source targets = [])
        \<and> (portal_type (getSourceBrain reference) \<noteq> ''spam'' \<longrightarrow>
             validateConnected env (InterfaceConstraint c) reference chain =
               Inl (ValidationException
                      (''Source type '' @ portal_type (getSourceBrain reference) @
                       '' not allowed for '' @ [CHR 0x27] @ ruleset_Title c @
                       [CHR 0x27] @ ''.'')
                      reference chain))"
      unfolding makeVocabulary_def validateConnected_def ast
      by (simp add: source_message_def Let_def)
  qed
  have t: ?T
  proof (intro impI, elim conjE)
    assume ne: "allowedTargetInterfaces c \<noteq> []"
      and none: "utils_getPortalTypesByInterfaces env (allowedTargetInterfaces c) = []"
    have att: "getAllowedTargetTypes env (InterfaceConstraint c) = [''spam'']"
      using ne none by (simp add: InterfaceConstraint_getPortalTypesByInterfaces_def)
    have terms: "getSearchTerms env (InterfaceConstraint c) = [''portal_type'' \<mapsto> [''spam'']]"
      unfolding getSearchTerms_def att by (simp add: Let_def)
    have voc: "(\<forall>t \<in> set ts. portal_type t \<noteq> ''spam'') \<longrightarrow>
             makeVocabulary env (InterfaceConstraint c) source (Some ts) = []"
      unfolding makeVocabulary_def att by (simp add: Let_def filter_empty_conv)
    have query: "(getAllowedSourceTypes env (InterfaceConstraint c) = []
              \<or> portal_type source \<in> set (getAllowedSourceTypes env (InterfaceConstraint c))) \<longrightarrow>
             makeVocabulary env (InterfaceConstraint c) source None =
               map (makeBrainAggregate env) (uid_catalog env [''portal_type'' \<mapsto> [''spam'']])"
      unfolding makeVocabulary_def terms by (auto simp add: Let_def)
    have nohit: "(\<forall>d kinds. d ''portal_type'' = Some kinds \<longrightarrow>
                (\<forall>hit \<in> set (uid_catalog env d).
                   portal_type (makeBrainAggregate env hit) \<in> set kinds))
             \<and> (\<forall>d. \<forall>hit \<in> set (uid_catalog env d).
                   portal_type (makeBrainAggregate env hit) \<noteq> ''spam'') \<longrightarrow>
             makeVocabulary env (InterfaceConstraint c) source None = []"
    proof (intro impI, elim conjE)
      assume honours: "\<forall>d kinds. d ''portal_type'' = Some kinds \<longrightarrow>
                (\<forall>hit \<in> set (uid_catalog env d).
                   portal_type (makeBrainAggregate env hit) \<in> set kinds)"
        and real: "\<forall>d. \<forall>hit \<in> set (uid_catalog env d).
                   portal_type (makeBrainAggregate env hit) \<noteq> ''spam''"
      have "hit \<notin> set (uid_catalog env [''portal_type'' \<mapsto> [''spam'']])" for hit
      proof
        assume h: "hit \<in> set (uid_catalog env [''portal_type'' \<mapsto> [''spam'']])"
        have "portal_type (makeBrainAggregate env hit) \<in> set [''spam'']"
          by (rule honours [rule_format, OF _ h]) simp
        moreover from real h have "portal_type (makeBrainAggregate env hit) \<noteq> ''spam''"
          by blast
        ultimately show False by simp
      qed
      then have "set (uid_catalog env [''portal_type'' \<mapsto> [''spam'']]) = {}"
        by (intro equals0I) simp
      then have "uid_catalog env [''portal_type'' \<mapsto> [''spam'']] = []"
        by simp
      then show "makeVocabulary env (InterfaceConstraint c) source None = []"
        unfolding makeVocabulary_def terms by (simp add: Let_def)
    qed
    have val: "portal_type (getTargetBrain reference) \<noteq> ''spam'' \<longrightarrow>
             validateConnected env (InterfaceConstraint c) reference chain \<noteq> Inr ()
             \<and> ((getAllowedSourceTypes env (InterfaceConstraint c) = []
              \<or> portal_type (getSourceBrain reference)
                  \<in> set (getAllowedSourceTypes env (InterfaceConstraint c))) \<longrightarrow>
                  validateConnected env (InterfaceConstraint c) reference chain =
                    Inl (ValidationException
                      (''Target type '' @ portal_type (getTargetBrain reference) @
                       '' not allowed for '' @ [CHR 0x27] @ ruleset_Title c @
                       [CHR 0x27] @ ''.'')
                      reference chain))"
      unfolding validateConnected_def att
      by (auto simp add: target_message_def Let_def)
    from att voc query nohit val
    show "getAllowedTargetTypes env (InterfaceConstraint c) = [''spam'']
        \<and> ((\<forall>t \<in> set ts. portal_type t \<noteq> ''spam'') \<longrightarrow>
             makeVocabulary env (InterfaceConstraint c) source (Some ts) = [])
        \<and> ((getAllowedSourceTypes env (InterfaceConstraint c) = []
              \<or> portal_type source \<in> set (getAllowedSourceTypes env (InterfaceConstraint c))) \<longrightarrow>
             makeVocabulary env (InterfaceConstraint c) source None =
               map (makeBrainAggregate env) (uid_catalog env [''portal_type'' \<mapsto> [''spam'']]))
        \<and> ((\<forall>d kinds. d ''portal_type'' = Some kinds \<longrightarrow>
                (\<forall>hit \<in> set (uid_catalog env d).
                   portal_type (makeBrainAggregate env hit) \<in> set kinds))
             \<and> (\<forall>d. \<forall>hit \<in> set (uid_catalog env d).
                   portal_type (makeBrainAggregate env hit) \<noteq> ''spam'') \<longrightarrow>
             makeVocabulary env (InterfaceConstraint c) source None = [])
        \<and> (portal_type (getTargetBrain reference) \<noteq> ''spam'' \<longrightarrow>
             validateConnected env (InterfaceConstraint c) reference chain \<noteq> Inr ()
             \<and> ((getAllowedSourceTypes env (InterfaceConstraint c) = []
              \<or> portal_type (getSourceBrain reference)
                  \<in> set (getAllowedSourceTypes env (InterfaceConstraint c))) \<longrightarrow>
                  validateConnected env (InterfaceConstraint c) reference chain =
                    Inl (ValidationException
                      (''Target type '' @ portal_type (getTargetBrain reference) @
                       '' not allowed for '' @ [CHR 0x27] @ ruleset_Title c @
                       [CHR 0x27] @ ''.'')
                      reference chain)))"
      by (intro conjI)
  qed
  have us: ?US
    by (simp add: makeVocabulary_def validateConnected_def Let_def)
  have ut: ?UT
    by (simp add: makeVocabulary_def validateConnected_def getSearchTerms_def Let_def)
  have u: ?U
    by (simp add: makeVocabulary_def validateConnected_def)
  from e1 e2 n1 n2 s t us ut u show ?thesis
    by (intro conjI)
qed

text \<open>
  Instances, where \<^verbatim>\<open>IMissing\<close> is provided by no portal type: the source side restricted
  to nothing (with and without \<^verbatim>\<open>targets\<close>); the target side restricted to nothing, with
  the sentinel reaching the echoing catalog and no hit on the indexing one; an interface
  that resolves to \<^verbatim>\<open>Document\<close>; one side unrestricted at a time; and no restriction at
  all.
\<close>

theorem InterfaceConstraint_allowed_types_witness:
  "getAllowedSourceTypes demo_site
     (InterfaceConstraint \<lparr> ruleset_Title = ''Is Parent Of'',
        allowedSourceInterfaces = [''IMissing''], allowedTargetInterfaces = [] \<rparr>) = [''spam'']
   \<and> makeVocabulary demo_site
     (InterfaceConstraint \<lparr> ruleset_Title = ''Is Parent Of'',
        allowedSourceInterfaces = [''IMissing''], allowedTargetInterfaces = [] \<rparr>)
     item0 (Some [item0, item1, item2]) = []
   \<and> validateConnected demo_site
     (InterfaceConstraint \<lparr> ruleset_Title = ''Is Parent Of'',
        allowedSourceInterfaces = [''IMissing''], allowedTargetInterfaces = [] \<rparr>)
     \<lparr> getSourceBrain = item0, getTargetBrain = item1 \<rparr> (7::nat) =
     Inl (ValidationException ''Source type Document not allowed for 'Is Parent Of'.''
            \<lparr> getSourceBrain = item0, getTargetBrain = item1 \<rparr> 7)
   \<and> makeVocabulary demo_site
     (InterfaceConstraint \<lparr> ruleset_Title = ''Is Parent Of'',
        allowedSourceInterfaces = [''IMissing''], allowedTargetInterfaces = [] \<rparr>)
     item0 None = []
   \<and> getAllowedTargetTypes demo_site
     (InterfaceConstraint \<lparr> ruleset_Title = ''Is Parent Of'',
        allowedSourceInterfaces = [], allowedTargetInterfaces = [''IMissing''] \<rparr>) = [''spam'']
   \<and> makeVocabulary demo_site
     (InterfaceConstraint \<lparr> ruleset_Title = ''Is Parent Of'',
        allowedSourceInterfaces = [], allowedTargetInterfaces = [''IMissing''] \<rparr>)
     item0 (Some [item0, item1, item2]) = []
   \<and> makeVocabulary demo_site
     (InterfaceConstraint \<lparr> ruleset_Title = ''Is Parent Of'',
        allowedSourceInterfaces = [], allowedTargetInterfaces = [''IMissing''] \<rparr>)
     item0 None = [\<lparr> UID = ''hit'', portal_type = ''spam'' \<rparr>]
   \<and> validateConnected demo_site
     (InterfaceConstraint \<lparr> ruleset_Title = ''Is Parent Of'',
        allowedSourceInterfaces = [], allowedTargetInterfaces = [''IMissing''] \<rparr>)
     \<lparr> getSourceBrain = item0, getTargetBrain = item1 \<rparr> (7::nat) =
     Inl (ValidationException ''Target type Image not allowed for 'Is Parent Of'.''
            \<lparr> getSourceBrain = item0, getTargetBrain = item1 \<rparr> 7)
   \<and> makeVocabulary indexed_site
     (InterfaceConstraint \<lparr> ruleset_Title = ''Is Parent Of'',
        allowedSourceInterfaces = [], allowedTargetInterfaces = [''IMissing''] \<rparr>)
     item0 None = []
   \<and> getAllowedSourceTypes demo_site
     (InterfaceConstraint \<lparr> ruleset_Title = ''Is Parent Of'',
        allowedSourceInterfaces = [''IDoc''], allowedTargetInterfaces = [''IDoc''] \<rparr>) = [''Document'', ''spam'']
   \<and> getAllowedTargetTypes demo_site
     (InterfaceConstraint \<lparr> ruleset_Title = ''Is Parent Of'',
        allowedSourceInterfaces = [''IDoc''], allowedTargetInterfaces = [''IDoc''] \<rparr>) = [''Document'', ''spam'']
   \<and> makeVocabulary demo_site
     (InterfaceConstraint \<lparr> ruleset_Title = ''Is Parent Of'',
        allowedSourceInterfaces = [], allowedTargetInterfaces = [''IDoc''] \<rparr>)
     item1 (Some [item0, item1, item2]) = [item0, item2]
   \<and> validateConnected demo_site
     (InterfaceConstraint \<lparr> ruleset_Title = ''Is Parent Of'',
        allowedSourceInterfaces = [], allowedTargetInterfaces = [''IDoc''] \<rparr>)
     \<lparr> getSourceBrain = item1, getTargetBrain = item0 \<rparr> (7::nat) =
     Inr ()
   \<and> makeVocabulary demo_site
     (InterfaceConstraint \<lparr> ruleset_Title = ''Is Parent Of'',
        allowedSourceInterfaces = [''IDoc''], allowedTargetInterfaces = [] \<rparr>)
     item0 (Some [item0, item1, item2]) = [item0, item1, item2]
   \<and> validateConnected demo_site
     (InterfaceConstraint \<lparr> ruleset_Title = ''Is Parent Of'',
        allowedSourceInterfaces = [''IDoc''], allowedTargetInterfaces = [] \<rparr>)
     \<lparr> getSourceBrain = item0, getTargetBrain = item1 \<rparr> (7::nat) =
     Inr ()
   \<and> makeVocabulary indexed_site
     (InterfaceConstraint \<lparr> ruleset_Title = ''Is Parent Of'',
        allowedSourceInterfaces = [''IDoc''], allowedTargetInterfaces = [] \<rparr>)
     item0 None = [item0, item1, item2]
   \<and> getAllowedSourceTypes demo_site
     (InterfaceConstraint \<lparr> ruleset_Title = ''Is Parent Of'',
        allowedSourceInterfaces = [], allowedTargetInterfaces = [] \<rparr>) = []
   \<and> getAllowedTargetTypes demo_site
     (InterfaceConstraint \<lparr> ruleset_Title = ''Is Parent Of'',
        allowedSourceInterfaces = [], allowedTargetInterfaces = [] \<rparr>) = []
   \<and> makeVocabulary demo_site
     (InterfaceConstraint \<lparr> ruleset_Title = ''Is Parent Of'',
        allowedSourceInterfaces = [], allowedTargetInterfaces = [] \<rparr>)
     item0 (Some [item0, item1, item2]) = [item0, item1, item2]
   \<and> validateConnected demo_site
     (InterfaceConstraint \<lparr> ruleset_Title = ''Is Parent Of'',
        allowedSourceInterfaces = [], allowedTargetInterfaces = [] \<rparr>)
     \<lparr> getSourceBrain = item0, getTargetBrain = item1 \<rparr> (7::nat) =
     Inr ()"
proof -
  have honours: "\<forall>d kinds. d ''portal_type'' = Some kinds \<longrightarrow>
      (\<forall>hit \<in> set (uid_catalog indexed_site d).
         portal_type (makeBrainAggregate indexed_site hit) \<in> set kinds)"
    by simp
  have real: "\<forall>d. \<forall>hit \<in> set (uid_catalog indexed_site d).
      portal_type (makeBrainAggregate indexed_site hit) \<noteq> ''spam''"
    by (auto split: option.splits)
  have src: "getAllowedSourceTypes demo_site
     (InterfaceConstraint \<lparr> ruleset_Title = ''Is Parent Of'',
        allowedSourceInterfaces = [''IMissing''], allowedTargetInterfaces = [] \<rparr>) = [''spam'']
   \<and> makeVocabulary demo_site
     (InterfaceConstraint \<lparr> ruleset_Title = ''Is Parent Of'',
        allowedSourceInterfaces = [''IMissing''], allowedTargetInterfaces = [] \<rparr>)
     item0 (Some [item0, item1, item2]) = []
   \<and> validateConnected demo_site
     (InterfaceConstraint \<lparr> ruleset_Title = ''Is Parent Of'',
        allowedSourceInterfaces = [''IMissing''], allowedTargetInterfaces = [] \<rparr>)
     \<lparr> getSourceBrain = item0, getTargetBrain = item1 \<rparr> (7::nat) =
     Inl (ValidationException ''Source type Document not allowed for 'Is Parent Of'.''
            \<lparr> getSourceBrain = item0, getTargetBrain = item1 \<rparr> 7)"
    using InterfaceConstraint_allowed_types [where env = demo_site and chain = "7::nat"
      and c = "\<lparr> ruleset_Title = ''Is Parent Of'',
        allowedSourceInterfaces = [''IMissing''], allowedTargetInterfaces = [] \<rparr>"
      and source = item0 and targets = "Some [item0, item1, item2]" and ts = "[item0, item1, item2]"
      and reference = "\<lparr> getSourceBrain = item0, getTargetBrain = item1 \<rparr>",
      THEN conjunct2, THEN conjunct2, THEN conjunct2, THEN conjunct2, THEN conjunct1]
    by (simp add: InterfaceConstraint_getPortalTypesByInterfaces_def)
  have src_none: "makeVocabulary demo_site
     (InterfaceConstraint \<lparr> ruleset_Title = ''Is Parent Of'',
        allowedSourceInterfaces = [''IMissing''], allowedTargetInterfaces = [] \<rparr>)
     item0 None = []"
    using InterfaceConstraint_allowed_types [where env = demo_site and chain = "7::nat"
      and c = "\<lparr> ruleset_Title = ''Is Parent Of'',
        allowedSourceInterfaces = [''IMissing''], allowedTargetInterfaces = [] \<rparr>"
      and source = item0 and targets = "None" and ts = "[item0, item1, item2]"
      and reference = "\<lparr> getSourceBrain = item0, getTargetBrain = item1 \<rparr>",
      THEN conjunct2, THEN conjunct2, THEN conjunct2, THEN conjunct2, THEN conjunct1]
    by (simp add: InterfaceConstraint_getPortalTypesByInterfaces_def)
  have tgt: "getAllowedTargetTypes demo_site
     (InterfaceConstraint \<lparr> ruleset_Title = ''Is Parent Of'',
        allowedSourceInterfaces = [], allowedTargetInterfaces = [''IMissing''] \<rparr>) = [''spam'']
   \<and> makeVocabulary demo_site
     (InterfaceConstraint \<lparr> ruleset_Title = ''Is Parent Of'',
        allowedSourceInterfaces = [], allowedTargetInterfaces = [''IMissing''] \<rparr>)
     item0 (Some [item0, item1, item2]) = []
   \<and> makeVocabulary demo_site
     (InterfaceConstraint \<lparr> ruleset_Title = ''Is Parent Of'',
        allowedSourceInterfaces = [], allowedTargetInterfaces = [''IMissing''] \<rparr>)
     item0 None = [\<lparr> UID = ''hit'', portal_type = ''spam'' \<rparr>]
   \<and> validateConnected demo_site
     (InterfaceConstraint \<lparr> ruleset_Title = ''Is Parent Of'',
        allowedSourceInterfaces = [], allowedTargetInterfaces = [''IMissing''] \<rparr>)
     \<lparr> getSourceBrain = item0, getTargetBrain = item1 \<rparr> (7::nat) =
     Inl (ValidationException ''Target type Image not allowed for 'Is Parent Of'.''
            \<lparr> getSourceBrain = item0, getTargetBrain = item1 \<rparr> 7)"
    using InterfaceConstraint_allowed_types [where env = demo_site and chain = "7::nat"
      and c = "\<lparr> ruleset_Title = ''Is Parent Of'',
        allowedSourceInterfaces = [], allowedTargetInterfaces = [''IMissing''] \<rparr>"
      and source = item0 and targets = "None" and ts = "[item0, item1, item2]"
      and reference = "\<lparr> getSourceBrain = item0, getTargetBrain = item1 \<rparr>",
      THEN conjunct2, THEN conjunct2, THEN conjunct2, THEN conjunct2, THEN conjunct2, THEN conjunct1]
    by (simp add: InterfaceConstraint_getPortalTypesByInterfaces_def)
  have tgt_none: "makeVocabulary indexed_site
     (InterfaceConstraint \<lparr> ruleset_Title = ''Is Parent Of'',
        allowedSourceInterfaces = [], allowedTargetInterfaces = [''IMissing''] \<rparr>)
     item0 None = []"
    using InterfaceConstraint_allowed_types [where env = indexed_site and chain = "7::nat"
      and c = "\<lparr> ruleset_Title = ''Is Parent Of'',
        allowedSourceInterfaces = [], allowedTargetInterfaces = [''IMissing''] \<rparr>"
      and source = item0 and targets = "None" and ts = "[item0, item1, item2]"
      and reference = "\<lparr> getSourceBrain = item0, getTargetBrain = item1 \<rparr>",
      THEN conjunct2, THEN conjunct2, THEN conjunct2, THEN conjunct2, THEN conjunct2, THEN conjunct1]
      honours
      real
    by (simp add: InterfaceConstraint_getPortalTypesByInterfaces_def)
  have doc: "getAllowedSourceTypes demo_site
     (InterfaceConstraint \<lparr> ruleset_Title = ''Is Parent Of'',
        allowedSourceInterfaces = [''IDoc''], allowedTargetInterfaces = [''IDoc''] \<rparr>) = [''Document'', ''spam'']"
    using InterfaceConstraint_allowed_types [where env = demo_site and chain = "7::nat"
      and c = "\<lparr> ruleset_Title = ''Is Parent Of'',
        allowedSourceInterfaces = [''IDoc''], allowedTargetInterfaces = [''IDoc''] \<rparr>"
      and source = item0 and targets = "None" and ts = "[item0, item1, item2]"
      and reference = "\<lparr> getSourceBrain = item0, getTargetBrain = item1 \<rparr>",
      THEN conjunct2, THEN conjunct2, THEN conjunct1]
    by simp
  have doc2: "getAllowedTargetTypes demo_site
     (InterfaceConstraint \<lparr> ruleset_Title = ''Is Parent Of'',
        allowedSourceInterfaces = [''IDoc''], allowedTargetInterfaces = [''IDoc''] \<rparr>) = [''Document'', ''spam'']"
    using InterfaceConstraint_allowed_types [where env = demo_site and chain = "7::nat"
      and c = "\<lparr> ruleset_Title = ''Is Parent Of'',
        allowedSourceInterfaces = [''IDoc''], allowedTargetInterfaces = [''IDoc''] \<rparr>"
      and source = item0 and targets = "None" and ts = "[item0, item1, item2]"
      and reference = "\<lparr> getSourceBrain = item0, getTargetBrain = item1 \<rparr>",
      THEN conjunct2, THEN conjunct2, THEN conjunct2, THEN conjunct1]
    by simp
  have free_src: "makeVocabulary demo_site
     (InterfaceConstraint \<lparr> ruleset_Title = ''Is Parent Of'',
        allowedSourceInterfaces = [], allowedTargetInterfaces = [''IDoc''] \<rparr>)
     item1 (Some [item0, item1, item2]) = [item0, item2]
   \<and> validateConnected demo_site
     (InterfaceConstraint \<lparr> ruleset_Title = ''Is Parent Of'',
        allowedSourceInterfaces = [], allowedTargetInterfaces = [''IDoc''] \<rparr>)
     \<lparr> getSourceBrain = item1, getTargetBrain = item0 \<rparr> (7::nat) =
     Inr ()"
    using InterfaceConstraint_allowed_types [where env = demo_site and chain = "7::nat"
      and c = "\<lparr> ruleset_Title = ''Is Parent Of'',
        allowedSourceInterfaces = [], allowedTargetInterfaces = [''IDoc''] \<rparr>"
      and source = item1 and targets = "None" and ts = "[item0, item1, item2]"
      and reference = "\<lparr> getSourceBrain = item1, getTargetBrain = item0 \<rparr>",
      THEN conjunct2, THEN conjunct2, THEN conjunct2, THEN conjunct2, THEN conjunct2, THEN conjunct2, THEN conjunct1]
    by (simp add: InterfaceConstraint_getPortalTypesByInterfaces_def)
  have free_tgt: "makeVocabulary demo_site
     (InterfaceConstraint \<lparr> ruleset_Title = ''Is Parent Of'',
        allowedSourceInterfaces = [''IDoc''], allowedTargetInterfaces = [] \<rparr>)
     item0 (Some [item0, item1, item2]) = [item0, item1, item2]
   \<and> validateConnected demo_site
     (InterfaceConstraint \<lparr> ruleset_Title = ''Is Parent Of'',
        allowedSourceInterfaces = [''IDoc''], allowedTargetInterfaces = [] \<rparr>)
     \<lparr> getSourceBrain = item0, getTargetBrain = item1 \<rparr> (7::nat) =
     Inr ()"
    using InterfaceConstraint_allowed_types [where env = demo_site and chain = "7::nat"
      and c = "\<lparr> ruleset_Title = ''Is Parent Of'',
        allowedSourceInterfaces = [''IDoc''], allowedTargetInterfaces = [] \<rparr>"
      and source = item0 and targets = "None" and ts = "[item0, item1, item2]"
      and reference = "\<lparr> getSourceBrain = item0, getTargetBrain = item1 \<rparr>",
      THEN conjunct2, THEN conjunct2, THEN conjunct2, THEN conjunct2, THEN conjunct2, THEN conjunct2, THEN conjunct2, THEN conjunct1]
    by (simp add: InterfaceConstraint_getPortalTypesByInterfaces_def)
  have free_tgt_none: "makeVocabulary indexed_site
     (InterfaceConstraint \<lparr> ruleset_Title = ''Is Parent Of'',
        allowedSourceInterfaces = [''IDoc''], allowedTargetInterfaces = [] \<rparr>)
     item0 None = [item0, item1, item2]"
    using InterfaceConstraint_allowed_types [where env = indexed_site and chain = "7::nat"
      and c = "\<lparr> ruleset_Title = ''Is Parent Of'',
        allowedSourceInterfaces = [''IDoc''], allowedTargetInterfaces = [] \<rparr>"
      and source = item0 and targets = "None" and ts = "[item0, item1, item2]"
      and reference = "\<lparr> getSourceBrain = item0, getTargetBrain = item1 \<rparr>",
      THEN conjunct2, THEN conjunct2, THEN conjunct2, THEN conjunct2, THEN conjunct2, THEN conjunct2, THEN conjunct2, THEN conjunct1]
    by (simp add: InterfaceConstraint_getPortalTypesByInterfaces_def)
  have e1: "getAllowedSourceTypes demo_site
     (InterfaceConstraint \<lparr> ruleset_Title = ''Is Parent Of'',
        allowedSourceInterfaces = [], allowedTargetInterfaces = [] \<rparr>) = []"
    using InterfaceConstraint_allowed_types [where env = demo_site and chain = "7::nat"
      and c = "\<lparr> ruleset_Title = ''Is Parent Of'',
        allowedSourceInterfaces = [], allowedTargetInterfaces = [] \<rparr>"
      and source = item0 and targets = "None" and ts = "[item0, item1, item2]"
      and reference = "\<lparr> getSourceBrain = item0, getTargetBrain = item1 \<rparr>",
      THEN conjunct1]
    by simp
  have e2: "getAllowedTargetTypes demo_site
     (InterfaceConstraint \<lparr> ruleset_Title = ''Is Parent Of'',
        allowedSourceInterfaces = [], allowedTargetInterfaces = [] \<rparr>) = []"
    using InterfaceConstraint_allowed_types [where env = demo_site and chain = "7::nat"
      and c = "\<lparr> ruleset_Title = ''Is Parent Of'',
        allowedSourceInterfaces = [], allowedTargetInterfaces = [] \<rparr>"
      and source = item0 and targets = "None" and ts = "[item0, item1, item2]"
      and reference = "\<lparr> getSourceBrain = item0, getTargetBrain = item1 \<rparr>",
      THEN conjunct2, THEN conjunct1]
    by simp
  have free: "makeVocabulary demo_site
     (InterfaceConstraint \<lparr> ruleset_Title = ''Is Parent Of'',
        allowedSourceInterfaces = [], allowedTargetInterfaces = [] \<rparr>)
     item0 (Some [item0, item1, item2]) = [item0, item1, item2]
   \<and> validateConnected demo_site
     (InterfaceConstraint \<lparr> ruleset_Title = ''Is Parent Of'',
        allowedSourceInterfaces = [], allowedTargetInterfaces = [] \<rparr>)
     \<lparr> getSourceBrain = item0, getTargetBrain = item1 \<rparr> (7::nat) =
     Inr ()"
    using InterfaceConstraint_allowed_types [where env = demo_site and chain = "7::nat"
      and c = "\<lparr> ruleset_Title = ''Is Parent Of'',
        allowedSourceInterfaces = [], allowedTargetInterfaces = [] \<rparr>"
      and source = item0 and targets = "None" and ts = "[item0, item1, item2]"
      and reference = "\<lparr> getSourceBrain = item0, getTargetBrain = item1 \<rparr>",
      THEN conjunct2, THEN conjunct2, THEN conjunct2, THEN conjunct2, THEN conjunct2, THEN conjunct2, THEN conjunct2, THEN conjunct2]
    by simp
  from src src_none tgt tgt_none doc doc2 free_src free_tgt free_tgt_none e1 e2 free show ?thesis
    by blast
qed

end
